theory Spec2Isabelle
  imports Complex_Main
begin

section \<open>Python values\<close>

text \<open>
  The values that flow through \<^verbatim>\<open>discord_status.py\<close>: what \<^verbatim>\<open>json.load\<close> can
  return (\<^verbatim>\<open>None\<close>, booleans, integers, floats, strings, lists and dicts with string
  keys) and the tuples that callers pass as \<^verbatim>\<open>party_size\<close>. A float is taken as the
  rational it denotes. A dict is the list of its items, in insertion order; a Python dict
  never holds a key twice, and the lookup reads the first item of a key.
\<close>

datatype pyval =
    VNone
  | VBool bool
  | VInt int
  | VFloat rat
  | VStr string
  | VList "pyval list"
  | VTuple "pyval list"
  | VDict "(string \<times> pyval) list"

text \<open>Python's truth value testing, as \<^verbatim>\<open>x or y\<close>, \<^verbatim>\<open>if x\<close> and \<^verbatim>\<open>not x\<close> apply it.\<close>

fun truthy :: "pyval \<Rightarrow> bool" where
  "truthy VNone = False"
| "truthy (VBool b) = b"
| "truthy (VInt i) = (i \<noteq> 0)"
| "truthy (VFloat r) = (r \<noteq> 0)"
| "truthy (VStr s) = (s \<noteq> [])"
| "truthy (VList xs) = (xs \<noteq> [])"
| "truthy (VTuple xs) = (xs \<noteq> [])"
| "truthy (VDict kvs) = (kvs \<noteq> [])"

text \<open>
  Exceptions. \<^verbatim>\<open>KeyboardInterrupt\<close> derives from \<^verbatim>\<open>BaseException\<close> only, so a handler
  \<^verbatim>\<open>except Exception\<close> does not catch it; every other error of this program
  (\<^verbatim>\<open>OSError\<close>, \<^verbatim>\<open>JSONDecodeError\<close>, \<^verbatim>\<open>AttributeError\<close>, \<^verbatim>\<open>TypeError\<close>, the errors
  of pypresence) is a subclass of \<^verbatim>\<open>Exception\<close>, named by its class.
\<close>

datatype exn = KeyboardInterrupt | Exception string

text \<open>Whether a handler \<^verbatim>\<open>except Exception\<close> catches the exception.\<close>

fun is_Exception :: "exn \<Rightarrow> bool" where
  "is_Exception KeyboardInterrupt = False"
| "is_Exception (Exception c) = True"

definition then_do :: "exn + 'a \<Rightarrow> ('a \<Rightarrow> exn + 'b) \<Rightarrow> exn + 'b" where
  "then_do r f = (case r of Inl e \<Rightarrow> Inl e | Inr v \<Rightarrow> f v)"

text \<open>
  \<^verbatim>\<open>cfg.get(key, default)\<close>: a dict looks the key up; any other JSON value has no
  attribute \<^verbatim>\<open>get\<close>, and the call raises \<^verbatim>\<open>AttributeError\<close>.
\<close>

definition config_get_default :: "pyval \<Rightarrow> string \<Rightarrow> pyval \<Rightarrow> exn + pyval" where
  "config_get_default cfg k d =
     (case cfg of
        VDict kvs \<Rightarrow> Inr (case map_of kvs k of None \<Rightarrow> d | Some v \<Rightarrow> v)
      | _ \<Rightarrow> Inl (Exception ''AttributeError''))"

definition config_get :: "pyval \<Rightarrow> string \<Rightarrow> exn + pyval" where
  "config_get cfg k = config_get_default cfg k VNone"

text \<open>
  \<^verbatim>\<open>a or self.config.get(k)\<close>: the right operand is evaluated only when the left one
  is falsy.
\<close>

definition or_config :: "pyval \<Rightarrow> pyval \<Rightarrow> string \<Rightarrow> exn + pyval" where
  "or_config a cfg k = (if truthy a then Inr a else config_get cfg k)"

section \<open>The outside world\<close>

text \<open>
  A \<^verbatim>\<open>Presence\<close> object of pypresence: the client id it was built with, and the
  position of its constructor call among the external calls, which tells two objects
  built with the same id apart.
\<close>

datatype presence = Presence pyval nat

text \<open>
  The external calls the program makes, in the order it makes them: the pypresence
  constructor and the methods \<^verbatim>\<open>connect\<close>, \<^verbatim>\<open>close\<close> and
  \<^verbatim>\<open>update(**update_data)\<close>; \<^verbatim>\<open>time.time()\<close> and \<^verbatim>\<open>time.sleep(x)\<close>; and
  \<^verbatim>\<open>json.dump\<close> of the configuration into the file of the given name.
\<close>

datatype call =
    CallPresence pyval
  | CallConnect presence
  | CallClose presence
  | CallUpdate presence "(string \<times> pyval) list"
  | CallTime
  | CallSleep pyval
  | CallDump string pyval

text \<open>The lines the program prints, one constructor per \<^verbatim>\<open>print\<close> statement.\<close>

datatype msg =
    MsgConfigError exn
  | MsgConfigSaved string
  | MsgSaveError exn
  | MsgConnected
  | MsgConnectFailed exn
  | MsgDisconnected
  | MsgDisconnectError exn
  | MsgNotConnected
  | MsgStatusUpdated pyval
  | MsgUpdateError exn
  | MsgBanner pyval "int option"
  | MsgInterrupt
  | MsgRunError exn
  | MsgNoClientId

record world =
  calls :: "call list"
  printed :: "msg list"

text \<open>
  What the outside does at an external call: it returns, at a wall-clock reading (the
  value of \<^verbatim>\<open>time.time()\<close> there), or it raises. The environment fixes the reply to
  the n-th external call of the run; the theorems hold for every environment.
\<close>

datatype reply = Returns rat | Raises exn

type_synonym env = "nat \<Rightarrow> reply"

definition ext_call :: "env \<Rightarrow> call \<Rightarrow> world \<Rightarrow> (exn + rat) \<times> world" where
  "ext_call env c w =
     (case env (length (calls w)) of
        Returns t \<Rightarrow> (Inr t, w\<lparr>calls := calls w @ [c]\<rparr>)
      | Raises e \<Rightarrow> (Inl e, w\<lparr>calls := calls w @ [c]\<rparr>))"

definition say :: "msg \<Rightarrow> world \<Rightarrow> world" where
  "say x w = w\<lparr>printed := printed w @ [x]\<rparr>"

section \<open>DiscordStatusManager\<close>

record manager =
  client_id :: pyval
  config_file :: string
  rpc :: "presence option"
  is_connected :: bool
  config :: pyval

subsection \<open>load_config and save_config\<close>

text \<open>
  What reading the configuration file gives: the file does not exist
  (\<^verbatim>\<open>os.path.exists\<close> is false), or \<^verbatim>\<open>open\<close> or \<^verbatim>\<open>json.load\<close> raises, or
  \<^verbatim>\<open>json.load\<close> returns a value.
\<close>

datatype file_read = Absent | ReadRaises exn | Loaded pyval

definition default_config :: pyval where
  "default_config = VDict
     [(''state'', VStr ''Playing a game''),
      (''details'', VStr ''Enjoying Discord''),
      (''large_image'', VStr ''discord''),
      (''large_text'', VStr ''Discord Rich Presence''),
      (''small_image'', VNone),
      (''small_text'', VNone),
      (''update_interval'', VInt 15),
      (''auto_start'', VBool True)]"

definition load_config :: "file_read \<Rightarrow> world \<Rightarrow> (exn + pyval) \<times> world" where
  "load_config f w =
     (case f of
        Absent \<Rightarrow> (Inr default_config, w)
      | Loaded v \<Rightarrow> (Inr v, w)
      | ReadRaises e \<Rightarrow>
          if is_Exception e then (Inr default_config, say (MsgConfigError e) w)
          else (Inl e, w))"


subsection \<open>connect and disconnect\<close>

definition connect :: "env \<Rightarrow> manager \<times> world \<Rightarrow> (exn + bool) \<times> manager \<times> world" where
  "connect env s =
     (case s of (m, w) \<Rightarrow>
        (case ext_call env (CallPresence (client_id m)) w of
           (Inl e, w1) \<Rightarrow>
             if is_Exception e
             then (Inr False, m\<lparr>is_connected := False\<rparr>, say (MsgConnectFailed e) w1)
             else (Inl e, m, w1)
         | (Inr t, w1) \<Rightarrow>
             (let p = Presence (client_id m) (length (calls w));
                  m1 = m\<lparr>rpc := Some p\<rparr>
              in case ext_call env (CallConnect p) w1 of
                   (Inl e, w2) \<Rightarrow>
                     if is_Exception e
                     then (Inr False, m1\<lparr>is_connected := False\<rparr>, say (MsgConnectFailed e) w2)
                     else (Inl e, m1, w2)
                 | (Inr t2, w2) \<Rightarrow>
                     (Inr True, m1\<lparr>is_connected := True\<rparr>, say MsgConnected w2))))"

definition disconnect :: "env \<Rightarrow> manager \<times> world \<Rightarrow> (exn + unit) \<times> manager \<times> world" where
  "disconnect env s =
     (case s of (m, w) \<Rightarrow>
        (case rpc m of
           None \<Rightarrow> (Inr (), m, w)
         | Some p \<Rightarrow>
             if is_connected m then
               (case ext_call env (CallClose p) w of
                  (Inr t, w1) \<Rightarrow> (Inr (), m\<lparr>is_connected := False\<rparr>, say MsgDisconnected w1)
                | (Inl e, w1) \<Rightarrow>
                    if is_Exception e then (Inr (), m, say (MsgDisconnectError e) w1)
                    else (Inl e, m, w1))
             else (Inr (), m, w)))"

subsection \<open>update_status\<close>

text \<open>
  The keyword arguments of \<^verbatim>\<open>update_status\<close>; each defaults to \<^verbatim>\<open>None\<close>. The
  annotations ask for strings, a tuple and a list, but \<^verbatim>\<open>examples.py\<close> passes
  whatever the JSON file holds, so an argument is any value.
\<close>

record status_args =
  state :: pyval
  details :: pyval
  large_image :: pyval
  large_text :: pyval
  small_image :: pyval
  small_text :: pyval
  party_id :: pyval
  party_size :: pyval
  buttons :: pyval

definition no_args :: status_args where
  "no_args = \<lparr>state = VNone, details = VNone, large_image = VNone, large_text = VNone,
     small_image = VNone, small_text = VNone, party_id = VNone, party_size = VNone,
     buttons = VNone\<rparr>"

text \<open>The four entries of the dict literal that come before \<^verbatim>\<open>"start"\<close>.\<close>

definition required_fields :: "status_args \<Rightarrow> pyval \<Rightarrow> exn + (string \<times> pyval) list" where
  "required_fields a cfg =
     then_do (or_config (state a) cfg ''state'') (\<lambda>s.
     then_do (or_config (details a) cfg ''details'') (\<lambda>d.
     then_do (or_config (large_image a) cfg ''large_image'') (\<lambda>li.
     then_do (or_config (large_text a) cfg ''large_text'') (\<lambda>lt.
       Inr [(''state'', s), (''details'', d), (''large_image'', li), (''large_text'', lt)]))))"

text \<open>
  \<^verbatim>\<open>if a or self.config.get(k): update_data[k] = a or self.config.get(k)\<close>: the
  entry is added when the merged value is truthy.
\<close>

definition optional_config_field :: "pyval \<Rightarrow> pyval \<Rightarrow> string \<Rightarrow> exn + (string \<times> pyval) list" where
  "optional_config_field a cfg k =
     then_do (or_config a cfg k) (\<lambda>c.
       if truthy c then then_do (or_config a cfg k) (\<lambda>v. Inr [(k, v)]) else Inr [])"

text \<open>\<^verbatim>\<open>if a: update_data[k] = a\<close>.\<close>

definition optional_arg_field :: "pyval \<Rightarrow> string \<Rightarrow> (string \<times> pyval) list" where
  "optional_arg_field a k = (if truthy a then [(k, a)] else [])"

definition optional_fields :: "status_args \<Rightarrow> pyval \<Rightarrow> exn + (string \<times> pyval) list" where
  "optional_fields a cfg =
     then_do (optional_config_field (small_image a) cfg ''small_image'') (\<lambda>si.
     then_do (optional_config_field (small_text a) cfg ''small_text'') (\<lambda>stx.
       Inr (si @ stx @ optional_arg_field (party_id a) ''party_id''
              @ optional_arg_field (party_size a) ''party_size''
              @ optional_arg_field (buttons a) ''buttons'')))"

text \<open>
  The body of the \<^verbatim>\<open>try\<close> of \<^verbatim>\<open>update_status\<close>, on the handle \<open>p\<close>: the dict
  literal (with \<^verbatim>\<open>time.time()\<close> as its fifth entry), the optional entries,
  \<^verbatim>\<open>self.rpc.update(**update_data)\<close>, the printed line, \<^verbatim>\<open>return True\<close>.
\<close>

definition update_body :: "env \<Rightarrow> status_args \<Rightarrow> manager \<Rightarrow> presence \<Rightarrow> world \<Rightarrow> (exn + bool) \<times> world" where
  "update_body env a m p w =
     (case required_fields a (config m) of
        Inl e \<Rightarrow> (Inl e, w)
      | Inr req \<Rightarrow>
          (case ext_call env CallTime w of
             (Inl e, w1) \<Rightarrow> (Inl e, w1)
           | (Inr t, w1) \<Rightarrow>
               (case optional_fields a (config m) of
                  Inl e \<Rightarrow> (Inl e, w1)
                | Inr opt \<Rightarrow>
                    (let update_data = req @ [(''start'', VFloat t)] @ opt
                     in case ext_call env (CallUpdate p update_data) w1 of
                          (Inl e, w2) \<Rightarrow> (Inl e, w2)
                        | (Inr t2, w2) \<Rightarrow>
                            (case or_config (state a) (config m) ''state'' of
                               Inl e \<Rightarrow> (Inl e, w2)
                             | Inr v \<Rightarrow> (Inr True, say (MsgStatusUpdated v) w2))))))"

text \<open>
  \<^verbatim>\<open>if not self.is_connected or not self.rpc\<close>: a \<^verbatim>\<open>Presence\<close> object is truthy, so
  \<^verbatim>\<open>not self.rpc\<close> holds exactly when the field is \<^verbatim>\<open>None\<close>. A handler
  \<^verbatim>\<open>except Exception\<close> closes the \<^verbatim>\<open>try\<close>.
\<close>

definition update_status :: "env \<Rightarrow> status_args \<Rightarrow> manager \<times> world \<Rightarrow> (exn + bool) \<times> manager \<times> world" where
  "update_status env a s =
     (case s of (m, w) \<Rightarrow>
        (case rpc m of
           None \<Rightarrow> (Inr False, m, say MsgNotConnected w)
         | Some p \<Rightarrow>
             if \<not> is_connected m then (Inr False, m, say MsgNotConnected w)
             else
               (case update_body env a m p w of
                  (Inl e, w1) \<Rightarrow>
                    if is_Exception e then (Inr False, m, say (MsgUpdateError e) w1)
                    else (Inl e, m, w1)
                | (Inr b, w1) \<Rightarrow> (Inr b, m, w1))))"

subsection \<open>run_continuous\<close>

text \<open>
  \<^verbatim>\<open>duration and (time.time() - start_time) > duration\<close>: the clock is read only when
  \<^verbatim>\<open>duration\<close> is truthy, that is neither \<^verbatim>\<open>None\<close> nor 0. The subtraction and the
  comparison are exact here; the code's are those of doubles, whose rounding can turn a
  comparison at the very boundary the other way.
\<close>

definition duration_elapsed :: "env \<Rightarrow> rat \<Rightarrow> int option \<Rightarrow> world \<Rightarrow> (exn + bool) \<times> world" where
  "duration_elapsed env start_time duration w =
     (case duration of
        None \<Rightarrow> (Inr False, w)
      | Some d \<Rightarrow>
          if d = 0 then (Inr False, w)
          else
            (case ext_call env CallTime w of
               (Inl e, w1) \<Rightarrow> (Inl e, w1)
             | (Inr t, w1) \<Rightarrow> (Inr (t - start_time > of_int d), w1)))"

text \<open>
  The \<^verbatim>\<open>while True\<close> loop. The first argument after the environment bounds the number
  of iterations: \<open>None\<close> says that the loop is still running after that many. The loop
  ends with \<open>Inr ()\<close> at the \<^verbatim>\<open>break\<close> and with \<open>Inl e\<close> when \<open>e\<close> is raised.
\<close>

fun run_loop :: "env \<Rightarrow> nat \<Rightarrow> rat \<Rightarrow> pyval \<Rightarrow> int option \<Rightarrow> manager \<times> world
    \<Rightarrow> ((exn + unit) \<times> manager \<times> world) option" where
  "run_loop env 0 start_time update_interval duration s = None"
| "run_loop env (Suc n) start_time update_interval duration s =
     (case s of (m, w) \<Rightarrow>
        (case duration_elapsed env start_time duration w of
           (Inl e, w1) \<Rightarrow> Some (Inl e, m, w1)
         | (Inr True, w1) \<Rightarrow> Some (Inr (), m, w1)
         | (Inr False, w1) \<Rightarrow>
             (case ext_call env (CallSleep update_interval) w1 of
                (Inl e, w2) \<Rightarrow> Some (Inl e, m, w2)
              | (Inr t, w2) \<Rightarrow>
                  (case update_status env no_args (m, w2) of
                     (Inl e, s3) \<Rightarrow> Some (Inl e, s3)
                   | (Inr b, s3) \<Rightarrow> run_loop env n start_time update_interval duration s3))))"

text \<open>
  The handlers of the \<^verbatim>\<open>try\<close> of \<^verbatim>\<open>run_continuous\<close>: \<^verbatim>\<open>except KeyboardInterrupt\<close>
  and \<^verbatim>\<open>except Exception\<close> each print a line, so every exception ends there.
\<close>

definition run_handler :: "exn \<Rightarrow> manager \<times> world \<Rightarrow> manager \<times> world" where
  "run_handler e s =
     (case s of (m, w) \<Rightarrow>
        (m, say (case e of KeyboardInterrupt \<Rightarrow> MsgInterrupt | Exception c \<Rightarrow> MsgRunError e) w))"

text \<open>The \<^verbatim>\<open>try\<close> with its handlers, up to the \<^verbatim>\<open>finally\<close>.\<close>

definition run_try :: "env \<Rightarrow> nat \<Rightarrow> rat \<Rightarrow> pyval \<Rightarrow> int option \<Rightarrow> manager \<times> world
    \<Rightarrow> (manager \<times> world) option" where
  "run_try env fuel start_time update_interval duration s =
     (case s of (m, w) \<Rightarrow>
        (case update_status env no_args (m, say (MsgBanner update_interval duration) w) of
           (Inl e, s1) \<Rightarrow> Some (run_handler e s1)
         | (Inr b, s1) \<Rightarrow>
             (case run_loop env fuel start_time update_interval duration s1 of
                None \<Rightarrow> None
              | Some (Inl e, s2) \<Rightarrow> Some (run_handler e s2)
              | Some (Inr u, s2) \<Rightarrow> Some s2)))"

definition run_continuous :: "env \<Rightarrow> nat \<Rightarrow> int option \<Rightarrow> manager \<times> world
    \<Rightarrow> ((exn + unit) \<times> manager \<times> world) option" where
  "run_continuous env fuel duration s =
     (case connect env s of
        (Inl e, s1) \<Rightarrow> Some (Inl e, s1)
      | (Inr False, s1) \<Rightarrow> Some (Inr (), s1)
      | (Inr True, m1, w1) \<Rightarrow>
          (case ext_call env CallTime w1 of
             (Inl e, w2) \<Rightarrow> Some (Inl e, m1, w2)
           | (Inr start_time, w2) \<Rightarrow>
               (case config_get_default (config m1) ''update_interval'' (VInt 15) of
                  Inl e \<Rightarrow> Some (Inl e, m1, w2)
                | Inr update_interval \<Rightarrow>
                    (case run_try env fuel start_time update_interval duration (m1, w2) of
                       None \<Rightarrow> None
                     | Some s3 \<Rightarrow> Some (disconnect env s3)))))"

subsection \<open>main\<close>








section \<open>Observations and example inputs\<close>

text \<open>Which external calls are updates, closes and sleeps.\<close>

fun is_update :: "call \<Rightarrow> bool" where
  "is_update (CallUpdate p d) = True"
| "is_update c = False"

fun is_close :: "call \<Rightarrow> bool" where
  "is_close (CallClose p) = True"
| "is_close c = False"

fun is_sleep :: "call \<Rightarrow> bool" where
  "is_sleep (CallSleep x) = True"
| "is_sleep c = False"

text \<open>
  A manager as its constructor leaves it when the configuration file does not exist, the
  same manager once connected, a world in which nothing has happened yet, and the
  environment in which every external call returns (at clock reading 0).
\<close>

definition fresh_manager :: manager where
  "fresh_manager = \<lparr>client_id = VStr ''123'', config_file = ''discord_config.json'',
     rpc = None, is_connected = False, config = default_config\<rparr>"

definition connected_manager :: manager where
  "connected_manager = fresh_manager\<lparr>rpc := Some (Presence (VStr ''123'') 0), is_connected := True\<rparr>"

definition empty_world :: world where
  "empty_world = \<lparr>calls = [], printed = []\<rparr>"

definition quiet :: env where
  "quiet = (\<lambda>n. Returns 0)"

text \<open>
  \<open>appended Q w w'\<close>: the external calls of \<open>w'\<close> are those of \<open>w\<close> followed by calls
  that all satisfy \<open>Q\<close>.
\<close>

definition appended :: "(call \<Rightarrow> bool) \<Rightarrow> world \<Rightarrow> world \<Rightarrow> bool" where
  "appended Q w w' =
     (take (length (calls w)) (calls w') = calls w
      \<and> list_all Q (drop (length (calls w)) (calls w')))"

text \<open>Whether the handler \<^verbatim>\<open>except KeyboardInterrupt\<close> of \<^verbatim>\<open>run_continuous\<close> has printed its line.\<close>

definition interrupted :: "world \<Rightarrow> bool" where
  "interrupted w = (MsgInterrupt \<in> set (printed w))"


text \<open>
  Environments for the examples: the second sleep is interrupted; the clock advances by
  one second per external call; the connection attempt is refused; closing fails.
\<close>

definition interrupt_second_sleep :: env where
  "interrupt_second_sleep = quiet(8 := Raises KeyboardInterrupt)"

definition ticking :: env where
  "ticking = (\<lambda>n. Returns (of_nat n))"

definition refuse_connect :: env where
  "refuse_connect = quiet(1 := Raises (Exception ''DiscordNotFound''))"

definition close_fails :: env where
  "close_fails = quiet(0 := Raises (Exception ''OSError''))"



text \<open>
  Ticks of the loop, read off the environment. An iteration that starts when \<open>b\<close>
  external calls have been made makes its calls at the positions \<open>b\<close>, \<open>b + 1\<close>, ...:
  the clock read of the loop test when the duration is truthy, then \<^verbatim>\<open>time.sleep\<close>,
  then the clock read and the send of \<^verbatim>\<open>update_status\<close>.
\<close>

definition loop_test_reads :: "int option \<Rightarrow> nat" where
  "loop_test_reads duration = (case duration of None \<Rightarrow> 0 | Some d \<Rightarrow> if d = 0 then 0 else 1)"

definition tick_calls :: "int option \<Rightarrow> nat" where
  "tick_calls duration = loop_test_reads duration + 3"

fun returns :: "reply \<Rightarrow> bool" where
  "returns (Returns t) = True"
| "returns (Raises e) = False"

text \<open>
  The loop test of an iteration that starts at position \<open>b\<close> does not break. The test
  looks at the world only through the number of calls made so far.
\<close>

definition test_passes :: "env \<Rightarrow> rat \<Rightarrow> int option \<Rightarrow> nat \<Rightarrow> bool" where
  "test_passes env start_time duration b =
     (fst (duration_elapsed env start_time duration
            \<lparr>calls = replicate b CallTime, printed = []\<rparr>) = Inr False)"

text \<open>
  A tick that gets as far as its send: the loop test passes, the sleep and the clock read
  return, and the send returns or fails with an error (it is not interrupted).
\<close>

definition tick_attempts :: "env \<Rightarrow> rat \<Rightarrow> int option \<Rightarrow> nat \<Rightarrow> bool" where
  "tick_attempts env start_time duration b =
     (test_passes env start_time duration b
      \<and> returns (env (b + loop_test_reads duration))
      \<and> returns (env (b + loop_test_reads duration + 1))
      \<and> env (b + loop_test_reads duration + 2) \<noteq> Raises KeyboardInterrupt)"

text \<open>A tick whose sleep is interrupted: the loop test passes and \<^verbatim>\<open>time.sleep\<close> raises \<^verbatim>\<open>KeyboardInterrupt\<close>.\<close>

definition tick_interrupted :: "env \<Rightarrow> rat \<Rightarrow> int option \<Rightarrow> nat \<Rightarrow> bool" where
  "tick_interrupted env start_time duration b =
     (test_passes env start_time duration b
      \<and> env (b + loop_test_reads duration) = Raises KeyboardInterrupt)"

text \<open>
  An environment in which the send of the first tick fails with an error and the sleep of
  the third tick is interrupted (for a loop without duration that starts at position 0).
\<close>

definition first_send_fails :: env where
  "first_send_fails = quiet(2 := Raises (Exception ''PipeClosed''), 6 := Raises KeyboardInterrupt)"

text \<open>
  The same for a loop with a truthy duration that starts at position 0, where every tick
  reads the clock first: the send of the first tick is the fourth call, the sleep of the
  third tick the tenth.
\<close>

definition timed_send_fails :: env where
  "timed_send_fails = quiet(3 := Raises (Exception ''PipeClosed''), 9 := Raises KeyboardInterrupt)"

section \<open>Lemmas about the operations\<close>

subsection \<open>External calls\<close>

lemma ext_call_eq:
  "ext_call env c w = (r, w') \<longleftrightarrow>
     r = (case env (length (calls w)) of Returns t \<Rightarrow> Inr t | Raises e \<Rightarrow> Inl e)
     \<and> w' = w\<lparr>calls := calls w @ [c]\<rparr>"
  by (auto simp add: ext_call_def split: reply.splits)

lemma appended_iff:
  "appended Q w w' \<longleftrightarrow> (\<exists>xs. calls w' = calls w @ xs \<and> list_all Q xs)"
proof
  assume "appended Q w w'"
  then have "calls w' = calls w @ drop (length (calls w)) (calls w')"
    "list_all Q (drop (length (calls w)) (calls w'))"
    unfolding appended_def by (metis append_take_drop_id, simp)
  then show "\<exists>xs. calls w' = calls w @ xs \<and> list_all Q xs" by blast
next
  assume "\<exists>xs. calls w' = calls w @ xs \<and> list_all Q xs"
  then show "appended Q w w'" unfolding appended_def by auto
qed

lemma appended_refl: "appended Q w w"
  by (simp add: appended_def)

lemma appended_trans:
  "appended Q w w1 \<Longrightarrow> appended Q w1 w2 \<Longrightarrow> appended Q w w2"
  unfolding appended_iff by auto

lemma appended_mono:
  "appended Q w w' \<Longrightarrow> (\<And>c. Q c \<Longrightarrow> R c) \<Longrightarrow> appended R w w'"
  unfolding appended_iff by (auto simp add: list_all_iff)

lemma appended_say: "appended Q w w' \<Longrightarrow> appended Q w (say x w')"
  by (simp add: appended_def say_def)

lemma appended_ext_call:
  "ext_call env c w = (r, w') \<Longrightarrow> Q c \<Longrightarrow> appended Q w w'"
  by (auto simp add: ext_call_eq appended_def)

lemma appended_filter:
  "appended Q w w' \<Longrightarrow> (\<And>c. Q c \<Longrightarrow> \<not> P c) \<Longrightarrow> filter P (calls w') = filter P (calls w)"
  unfolding appended_iff by (auto simp add: list_all_iff filter_empty_conv)

subsection \<open>update_status\<close>

lemma update_body_appended:
  "update_body env a m p w = (r, w') \<Longrightarrow> appended (\<lambda>c. c = CallTime \<or> is_update c) w w'"
  by (auto simp add: update_body_def ext_call_eq say_def appended_def Let_def
      split: sum.splits prod.splits reply.splits)

lemma update_body_printed:
  "update_body env a m p w = (r, w') \<Longrightarrow> interrupted w' = interrupted w"
  by (auto simp add: update_body_def ext_call_eq say_def interrupted_def Let_def
      split: sum.splits prod.splits reply.splits)

lemma update_status_keeps_manager:
  "update_status env a (m, w) = (r, m', w') \<Longrightarrow> m' = m"
  by (auto simp add: update_status_def split: option.splits prod.splits sum.splits if_splits)

lemma update_status_appended:
  "update_status env a (m, w) = (r, m', w') \<Longrightarrow> appended (\<lambda>c. c = CallTime \<or> is_update c) w w'"
  by (auto simp add: update_status_def appended_refl appended_say
      dest: update_body_appended
      split: option.splits prod.splits sum.splits if_splits)

lemma update_status_printed:
  "update_status env a (m, w) = (r, m', w') \<Longrightarrow> interrupted w' = interrupted w"
  by (auto simp add: update_status_def say_def interrupted_def
      dest: update_body_printed
      split: option.splits prod.splits sum.splits if_splits)

lemma update_status_raises:
  "update_status env a (m, w) = (Inl e, m', w') \<Longrightarrow> e = KeyboardInterrupt"
  by (cases e) (auto simp add: update_status_def split: option.splits prod.splits sum.splits if_splits)

subsection \<open>run_loop\<close>

lemma duration_elapsed_appended:
  "duration_elapsed env st d w = (r, w') \<Longrightarrow> appended (\<lambda>c. c = CallTime) w w' \<and> printed w' = printed w"
  by (auto simp add: duration_elapsed_def ext_call_eq appended_def
      split: option.splits if_splits reply.splits prod.splits sum.splits)

lemma run_loop_props:
  "run_loop env n st ui d (m, w) = Some (r, m', w') \<Longrightarrow>
     m' = m \<and> appended (\<lambda>c. c = CallTime \<or> is_update c \<or> is_sleep c) w w' \<and> interrupted w' = interrupted w"
proof (induction n arbitrary: w)
  case 0
  then show ?case by simp
next
  case (Suc n)
  let ?Q = "\<lambda>c. c = CallTime \<or> is_update c \<or> is_sleep c"
  obtain r1 w1 where de: "duration_elapsed env st d w = (r1, w1)" by fastforce
  then have a1: "appended ?Q w w1" and p1: "printed w1 = printed w"
    using duration_elapsed_appended [OF de] by (auto elim: appended_mono)
  show ?case
  proof (cases r1)
    case (Inl e)
    with Suc.prems de a1 p1 show ?thesis by (auto simp add: interrupted_def)
  next
    case (Inr b)
    show ?thesis
    proof (cases b)
      case True
      with Inr Suc.prems de a1 p1 show ?thesis by (auto simp add: interrupted_def)
    next
      case False
      obtain r2 w2 where sl: "ext_call env (CallSleep ui) w1 = (r2, w2)" by fastforce
      then have a2: "appended ?Q w1 w2" and p2: "printed w2 = printed w1"
        by (auto simp add: ext_call_eq appended_def)
      show ?thesis
      proof (cases r2)
        case (Inl e)
        with False Inr Suc.prems de sl a1 a2 p1 p2 show ?thesis
          by (auto simp add: interrupted_def elim: appended_trans)
      next
        case (Inr t)
        obtain r3 m3 w3 where us: "update_status env no_args (m, w2) = (r3, m3, w3)"
          by (metis prod_cases3)
        have m3: "m3 = m" using update_status_keeps_manager [OF us] .
        have a3: "appended ?Q w2 w3"
          using update_status_appended [OF us] by (auto elim: appended_mono)
        have p3: "interrupted w3 = interrupted w2" using update_status_printed [OF us] .
        have a03: "appended ?Q w w3" using a1 a2 a3 by (blast intro: appended_trans)
        have p03: "interrupted w3 = interrupted w" using p1 p2 p3 by (simp add: interrupted_def)
        show ?thesis
        proof (cases r3)
          case (Inl e)
          with Inr False \<open>r1 = Inr b\<close> Suc.prems de sl us m3 a03 p03 show ?thesis by auto
        next
          case (Inr b3)
          with \<open>r2 = Inr t\<close> False \<open>r1 = Inr b\<close> Suc.prems de sl us m3
          have "run_loop env n st ui d (m, w3) = Some (r, m', w')" by auto
          from Suc.IH [OF this] a03 p03 show ?thesis by (auto elim: appended_trans)
        qed
      qed
    qed
  qed
qed

subsection \<open>connect and disconnect\<close>

lemma connect_appended:
  "connect env (m, w) = (r, m', w') \<Longrightarrow>
     appended (\<lambda>c. \<not> is_update c \<and> \<not> is_sleep c \<and> \<not> is_close c \<and> c \<noteq> CallTime) w w'
     \<and> interrupted w' = interrupted w"
  by (auto simp add: connect_def ext_call_eq say_def appended_def interrupted_def Let_def
      split: sum.splits prod.splits reply.splits if_splits)

lemma connect_True:
  "connect env (m, w) = (Inr True, m', w') \<Longrightarrow>
     is_connected m' \<and> rpc m' = Some (Presence (client_id m) (length (calls w)))
     \<and> config m' = config m"
  by (auto simp add: connect_def ext_call_eq Let_def
      split: sum.splits prod.splits reply.splits if_splits)

lemma connect_False:
  "connect env (m, w) = (Inr False, m', w') \<Longrightarrow>
     \<not> is_connected m' \<and> (\<exists>e. printed w' = printed w @ [MsgConnectFailed e])"
  by (auto simp add: connect_def ext_call_eq say_def Let_def
      split: sum.splits prod.splits reply.splits if_splits)

lemma disconnect_connected:
  "is_connected m \<Longrightarrow> rpc m = Some p \<Longrightarrow> disconnect env (m, w) = (r, m', w') \<Longrightarrow>
     calls w' = calls w @ [CallClose p] \<and> interrupted w' = interrupted w
     \<and> (r = Inr () \<or> r = Inl KeyboardInterrupt \<and> env (length (calls w)) = Raises KeyboardInterrupt)"
  apply (auto simp add: disconnect_def ext_call_eq say_def interrupted_def
      split: sum.splits prod.splits reply.splits if_splits)
  subgoal for e by (cases e) auto
  subgoal for e by (cases e) auto
  done

subsection \<open>run_continuous\<close>

lemma run_handler_props:
  "run_handler e (m, w) = (m', w') \<Longrightarrow> m' = m \<and> calls w' = calls w"
  by (auto simp add: run_handler_def say_def)

lemma run_try_props:
  assumes "run_try env fuel st ui d (m, w) = Some (m', w')"
  shows "m' = m \<and> appended (\<lambda>c. c = CallTime \<or> is_update c \<or> is_sleep c) w w'"
proof -
  let ?Q = "\<lambda>c. c = CallTime \<or> is_update c \<or> is_sleep c"
  let ?w0 = "say (MsgBanner ui d) w"
  obtain r1 m1 w1 where us: "update_status env no_args (m, ?w0) = (r1, m1, w1)"
    by (metis prod_cases3)
  have m1: "m1 = m" using update_status_keeps_manager [OF us] .
  have "appended ?Q ?w0 w1" using update_status_appended [OF us] by (auto elim: appended_mono)
  then have a1: "appended ?Q w w1" by (simp add: appended_def say_def)
  show ?thesis
  proof (cases r1)
    case (Inl e)
    with assms us m1 a1 show ?thesis
      by (auto simp add: run_try_def run_handler_def say_def appended_def)
  next
    case (Inr b)
    obtain lr where lr: "run_loop env fuel st ui d (m, w1) = lr" by simp
    show ?thesis
    proof (cases lr)
      case None
      with Inr assms us m1 lr show ?thesis by (simp add: run_try_def)
    next
      case (Some x)
      obtain r2 m2 w2 where x: "x = (r2, m2, w2)" by (metis prod_cases3)
      from run_loop_props [of env fuel st ui d m w1 r2 m2 w2] Some lr x
      have m2: "m2 = m" and a2: "appended ?Q w1 w2" by auto
      have a02: "appended ?Q w w2" using a1 a2 by (rule appended_trans)
      from Inr assms us m1 lr Some x m2 a02 show ?thesis
        by (cases r2) (auto simp add: run_try_def run_handler_def say_def appended_def)
    qed
  qed
qed

lemma loop_call_not_close:
  "c = CallTime \<or> is_update c \<or> is_sleep c \<Longrightarrow> \<not> is_close c"
  by (cases c) auto







subsection \<open>Unfolding the model on concrete inputs\<close>

lemmas model_defs = run_continuous_def connect_def ext_call_def say_def
  default_config_def config_get_default_def run_try_def update_status_def update_body_def
  required_fields_def optional_fields_def optional_config_field_def optional_arg_field_def
  or_config_def config_get_def then_do_def no_args_def duration_elapsed_def run_handler_def
  disconnect_def fresh_manager_def connected_manager_def empty_world_def quiet_def


subsection \<open>The fields of an update, for a configuration that is a dict\<close>

lemma or_config_dict:
  "or_config a (VDict kvs) k =
     Inr (if truthy a then a else case map_of kvs k of None \<Rightarrow> VNone | Some v \<Rightarrow> v)"
  by (simp add: or_config_def config_get_def config_get_default_def)

lemma required_fields_dict:
  "required_fields a (VDict kvs) = Inr
     [(''state'', if truthy (state a) then state a
         else case map_of kvs ''state'' of None \<Rightarrow> VNone | Some v \<Rightarrow> v),
      (''details'', if truthy (details a) then details a
         else case map_of kvs ''details'' of None \<Rightarrow> VNone | Some v \<Rightarrow> v),
      (''large_image'', if truthy (large_image a) then large_image a
         else case map_of kvs ''large_image'' of None \<Rightarrow> VNone | Some v \<Rightarrow> v),
      (''large_text'', if truthy (large_text a) then large_text a
         else case map_of kvs ''large_text'' of None \<Rightarrow> VNone | Some v \<Rightarrow> v)]"
  by (simp add: required_fields_def or_config_dict then_do_def split del: if_split)

lemma optional_config_field_dict:
  "optional_config_field a (VDict kvs) k = Inr
     (if truthy (if truthy a then a else case map_of kvs k of None \<Rightarrow> VNone | Some v \<Rightarrow> v)
      then [(k, if truthy a then a else case map_of kvs k of None \<Rightarrow> VNone | Some v \<Rightarrow> v)]
      else [])"
  by (simp add: optional_config_field_def or_config_dict then_do_def)

lemma optional_fields_dict:
  "optional_fields a (VDict kvs) = Inr
     ((if truthy (if truthy (small_image a) then small_image a
                  else case map_of kvs ''small_image'' of None \<Rightarrow> VNone | Some v \<Rightarrow> v)
       then [(''small_image'', if truthy (small_image a) then small_image a
                  else case map_of kvs ''small_image'' of None \<Rightarrow> VNone | Some v \<Rightarrow> v)]
       else [])
      @ (if truthy (if truthy (small_text a) then small_text a
                  else case map_of kvs ''small_text'' of None \<Rightarrow> VNone | Some v \<Rightarrow> v)
       then [(''small_text'', if truthy (small_text a) then small_text a
                  else case map_of kvs ''small_text'' of None \<Rightarrow> VNone | Some v \<Rightarrow> v)]
       else [])
      @ (if truthy (party_id a) then [(''party_id'', party_id a)] else [])
      @ (if truthy (party_size a) then [(''party_size'', party_size a)] else [])
      @ (if truthy (buttons a) then [(''buttons'', buttons a)] else []))"
  by (simp add: optional_fields_def optional_config_field_dict optional_arg_field_def
      then_do_def split del: if_split)


subsection \<open>Ticks of the loop\<close>

lemma duration_elapsed_passes:
  assumes "test_passes env st duration (length (calls w))"
  shows "duration_elapsed env st duration w =
     (Inr False, w\<lparr>calls := calls w @ replicate (loop_test_reads duration) CallTime\<rparr>)"
proof (cases duration)
  case None
  then show ?thesis by (simp add: duration_elapsed_def loop_test_reads_def)
next
  case (Some d)
  show ?thesis
  proof (cases "d = 0")
    case True
    with Some show ?thesis by (simp add: duration_elapsed_def loop_test_reads_def)
  next
    case False
    with Some assms show ?thesis
      by (auto simp add: duration_elapsed_def loop_test_reads_def test_passes_def ext_call_def
          split: reply.splits)
  qed
qed

lemma update_status_attempt:
  assumes "is_connected m" and "rpc m = Some p" and "config m = VDict kvs"
    and "returns (env (length (calls w)))"
    and "env (Suc (length (calls w))) \<noteq> Raises KeyboardInterrupt"
  shows "\<exists>b w' d. update_status env a (m, w) = (Inr b, m, w')
           \<and> calls w' = calls w @ [CallTime, CallUpdate p d]"
proof -
  obtain req where req: "required_fields a (VDict kvs) = Inr req"
    by (simp add: required_fields_dict)
  obtain opt where opt: "optional_fields a (VDict kvs) = Inr opt"
    by (simp add: optional_fields_dict)
  obtain v where v: "or_config (state a) (VDict kvs) ''state'' = Inr v"
    by (simp add: or_config_dict)
  obtain t where t: "env (length (calls w)) = Returns t"
    using assms(4) by (cases "env (length (calls w))") auto
  show ?thesis
  proof (cases "env (Suc (length (calls w)))")
    case (Returns t2)
    with assms(1-3) req opt v t show ?thesis
      by (auto simp add: update_status_def update_body_def ext_call_def say_def Let_def)
  next
    case (Raises e)
    with assms(5) obtain c where "e = Exception c" by (cases e) auto
    with Raises assms(1-3) req opt v t show ?thesis
      by (auto simp add: update_status_def update_body_def ext_call_def say_def Let_def)
  qed
qed

lemma run_loop_ticks:
  assumes "is_connected m" and "rpc m = Some p" and "config m = VDict kvs"
  shows "(\<forall>i<k. tick_attempts env st duration (length (calls w) + tick_calls duration * i))
     \<Longrightarrow> tick_interrupted env st duration (length (calls w) + tick_calls duration * k)
     \<Longrightarrow> k < n
     \<Longrightarrow> \<exists>w'. run_loop env n st ui duration (m, w) = Some (Inl KeyboardInterrupt, m, w')
            \<and> length (filter is_update (calls w')) = length (filter is_update (calls w)) + k
            \<and> length (filter is_sleep (calls w')) = length (filter is_sleep (calls w)) + k + 1"
proof (induction k arbitrary: n w)
  case 0
  let ?q = "loop_test_reads duration"
  let ?w1 = "w\<lparr>calls := calls w @ replicate ?q CallTime\<rparr>"
  from 0 obtain n' where n: "n = Suc n'" by (cases n) auto
  from 0 have tp: "test_passes env st duration (length (calls w))"
    and sl: "env (length (calls w) + ?q) = Raises KeyboardInterrupt"
    by (simp_all add: tick_interrupted_def)
  have de: "duration_elapsed env st duration w = (Inr False, ?w1)"
    using duration_elapsed_passes [OF tp] .
  have "run_loop env n st ui duration (m, w) =
      Some (Inl KeyboardInterrupt, m, ?w1\<lparr>calls := calls ?w1 @ [CallSleep ui]\<rparr>)"
    using n de sl by (simp add: ext_call_def)
  then show ?case by auto
next
  case (Suc k)
  let ?q = "loop_test_reads duration"
  let ?b = "length (calls w)"
  let ?w1 = "w\<lparr>calls := calls w @ replicate ?q CallTime\<rparr>"
  let ?w2 = "?w1\<lparr>calls := calls ?w1 @ [CallSleep ui]\<rparr>"
  from Suc.prems obtain n' where n: "n = Suc n'" and kn: "k < n'" by (cases n) auto
  from Suc.prems(1) have "tick_attempts env st duration (?b + tick_calls duration * 0)"
    by blast
  then have tp: "test_passes env st duration ?b"
    and sl: "returns (env (?b + ?q))"
    and ck: "returns (env (?b + ?q + 1))"
    and sd: "env (?b + ?q + 2) \<noteq> Raises KeyboardInterrupt"
    by (simp_all add: tick_attempts_def)
  have de: "duration_elapsed env st duration w = (Inr False, ?w1)"
    using duration_elapsed_passes [OF tp] .
  obtain t where t: "env (?b + ?q) = Returns t"
    using sl by (cases "env (?b + ?q)") auto
  have sleep: "ext_call env (CallSleep ui) ?w1 = (Inr t, ?w2)"
    using t by (simp add: ext_call_def)
  have len2: "length (calls ?w2) = ?b + ?q + 1" by simp
  from update_status_attempt [OF assms, of env ?w2 no_args] ck sd len2
  obtain b w3 d where us: "update_status env no_args (m, ?w2) = (Inr b, m, w3)"
    and c3: "calls w3 = calls ?w2 @ [CallTime, CallUpdate p d]"
    by auto
  have len3: "length (calls w3) = ?b + tick_calls duration"
    using c3 by (simp add: tick_calls_def)
  have step: "run_loop env n st ui duration (m, w) = run_loop env n' st ui duration (m, w3)"
    using n de sleep us by simp
  have h1: "\<forall>i<k. tick_attempts env st duration (length (calls w3) + tick_calls duration * i)"
  proof (intro allI impI)
    fix i assume "i < k"
    then have "tick_attempts env st duration (?b + tick_calls duration * Suc i)"
      using Suc.prems(1) by auto
    then show "tick_attempts env st duration (length (calls w3) + tick_calls duration * i)"
      by (simp add: len3 add.assoc)
  qed
  have h2: "tick_interrupted env st duration (length (calls w3) + tick_calls duration * k)"
    using Suc.prems(2) by (simp add: len3 add.assoc)
  from Suc.IH [OF h1 h2 kn] obtain w' where
    r: "run_loop env n' st ui duration (m, w3) = Some (Inl KeyboardInterrupt, m, w')"
    and u: "length (filter is_update (calls w')) = length (filter is_update (calls w3)) + k"
    and s: "length (filter is_sleep (calls w')) = length (filter is_sleep (calls w3)) + k + 1"
    by blast
  have u3: "length (filter is_update (calls w3)) = length (filter is_update (calls w)) + 1"
    and s3: "length (filter is_sleep (calls w3)) = length (filter is_sleep (calls w)) + 1"
    using c3 by simp_all
  from step r u s u3 s3 show ?case by simp
qed

section \<open>The claims\<close>

subsection \<open>C1: a duration of 0\<close>

text \<open>
  Claim C1: when \<^verbatim>\<open>run_continuous\<close> is given a duration of 0 seconds after a
  successful connect, exactly one update call occurs, the loop body never executes and
  disconnect is called once. The code does otherwise: the test
  \<^verbatim>\<open>if duration and ...\<close> takes 0 for "no duration", so the loop runs as it does for
  \<^verbatim>\<open>None\<close>. Below, with the default configuration, every external call succeeds
  until the second \<^verbatim>\<open>time.sleep\<close> is interrupted: the run has slept twice and sent
  two updates (and closed the connection once).
\<close>

theorem run_continuous_duration_zero_loops:
  "(case run_continuous interrupt_second_sleep 2 (Some 0) (fresh_manager, empty_world) of
      None \<Rightarrow> None
    | Some (r, m, w) \<Rightarrow>
        Some (r, length (filter is_update (calls w)), length (filter is_sleep (calls w)),
              length (filter is_close (calls w))))
   = Some (Inr (), 2, 2, 1)"
  by (simp add: model_defs interrupt_second_sleep_def eval_nat_numeral Let_def)

subsection \<open>C2: merging the arguments with the configuration\<close>




subsection \<open>C3: the default configuration\<close>

text \<open>
  Claim C3, as the code has it: when the configuration file is missing, or reading or
  parsing it raises an error (any subclass of \<^verbatim>\<open>Exception\<close>), \<^verbatim>\<open>load_config\<close>
  raises nothing and returns the default record, which holds the seven documented fields
  and an eighth, \<^verbatim>\<open>auto_start = True\<close>.
\<close>

theorem load_config_defaults:
  "f = Absent \<or> f = ReadRaises (Exception c) \<Longrightarrow>
     fst (load_config f w) = Inr (VDict
       [(''state'', VStr ''Playing a game''),
        (''details'', VStr ''Enjoying Discord''),
        (''large_image'', VStr ''discord''),
        (''large_text'', VStr ''Discord Rich Presence''),
        (''small_image'', VNone),
        (''small_text'', VNone),
        (''update_interval'', VInt 15),
        (''auto_start'', VBool True)])"
  by (auto simp add: load_config_def default_config_def)

theorem load_config_defaults_witness:
  "(ReadRaises (Exception ''JSONDecodeError'') = Absent
      \<or> ReadRaises (Exception ''JSONDecodeError'') = ReadRaises (Exception ''JSONDecodeError''))
   \<and> fst (load_config (ReadRaises (Exception ''JSONDecodeError'')) empty_world) = Inr (VDict
       [(''state'', VStr ''Playing a game''),
        (''details'', VStr ''Enjoying Discord''),
        (''large_image'', VStr ''discord''),
        (''large_text'', VStr ''Discord Rich Presence''),
        (''small_image'', VNone),
        (''small_text'', VNone),
        (''update_interval'', VInt 15),
        (''auto_start'', VBool True)])"
  using load_config_defaults [of "ReadRaises (Exception ''JSONDecodeError'')" "''JSONDecodeError''" empty_world]
  by simp

text \<open>
  The claim as stated says that the record has no other field than the seven it lists;
  the record returned for a missing file is not that one.
\<close>

theorem load_config_defaults_counterexample:
  "fst (load_config Absent empty_world) \<noteq> Inr (VDict
       [(''state'', VStr ''Playing a game''),
        (''details'', VStr ''Enjoying Discord''),
        (''large_image'', VStr ''discord''),
        (''large_text'', VStr ''Discord Rich Presence''),
        (''small_image'', VNone),
        (''small_text'', VNone),
        (''update_interval'', VInt 15)])"
  by (simp add: load_config_def default_config_def)

subsection \<open>C4: update_status while disconnected\<close>

text \<open>
  Claim C4: when \<^verbatim>\<open>is_connected\<close> is false, \<^verbatim>\<open>update_status\<close> returns \<^verbatim>\<open>False\<close>,
  makes no external call and leaves the manager as it was; all it does is print a line.
\<close>

theorem update_status_disconnected:
  "\<not> is_connected m \<Longrightarrow>
     update_status env a (m, w) = (Inr False, m, w\<lparr>printed := printed w @ [MsgNotConnected]\<rparr>)"
  by (simp add: update_status_def say_def split: option.splits)

theorem update_status_disconnected_witness:
  "\<not> is_connected fresh_manager \<and>
   update_status quiet no_args (fresh_manager, empty_world)
     = (Inr False, fresh_manager, \<lparr>calls = [], printed = [MsgNotConnected]\<rparr>)"
  using update_status_disconnected [of fresh_manager quiet no_args empty_world]
  by (simp add: fresh_manager_def empty_world_def)

subsection \<open>C5: disconnect when close raises\<close>

text \<open>
  Claim C5: after \<^verbatim>\<open>disconnect\<close> returns, the manager is disconnected even when the
  underlying \<^verbatim>\<open>close\<close> raised an error. The code does otherwise:
  \<^verbatim>\<open>self.is_connected = False\<close> stands after \<^verbatim>\<open>self.rpc.close()\<close> inside the
  \<^verbatim>\<open>try\<close>, so an error of \<^verbatim>\<open>close\<close> is printed and swallowed with the flag still
  true. Below, \<^verbatim>\<open>close\<close> raises \<^verbatim>\<open>OSError\<close> on a connected manager.
\<close>

theorem disconnect_close_error_stays_connected:
  "disconnect close_fails (connected_manager, empty_world) =
     (Inr (), connected_manager,
      \<lparr>calls = [CallClose (Presence (VStr ''123'') 0)],
       printed = [MsgDisconnectError (Exception ''OSError'')]\<rparr>)
   \<and> is_connected connected_manager"
  by (simp add: model_defs close_fails_def Let_def)

subsection \<open>C6: disconnect twice\<close>

text \<open>
  Claim C6: for every state, the second of two calls of \<^verbatim>\<open>disconnect\<close> in a row makes
  no external close call. The code does otherwise when the first \<^verbatim>\<open>close\<close> raises an
  error (the flag stays true, see C5): the second call closes again. Below, the first
  \<^verbatim>\<open>close\<close> raises \<^verbatim>\<open>OSError\<close> and the second returns.
\<close>

theorem disconnect_twice_closes_twice:
  "calls (snd (snd (disconnect close_fails
       (snd (disconnect close_fails (connected_manager, empty_world)))))) =
     [CallClose (Presence (VStr ''123'') 0), CallClose (Presence (VStr ''123'') 0)]"
  by (simp add: model_defs close_fails_def Let_def)

subsection \<open>C7: the first connect fails\<close>

text \<open>
  Claim C7, as the code has it: when \<^verbatim>\<open>connect\<close> fails (returns \<^verbatim>\<open>False\<close>),
  \<^verbatim>\<open>run_continuous\<close> returns at once, whatever the bound on the loop and the duration:
  the loop is not entered, no update, sleep or close call has been made, and the manager is
  disconnected. It returns \<^verbatim>\<open>None\<close>, as it does on every other path: the failure is not
  reported through the result, it shows only in the line that \<^verbatim>\<open>connect\<close> has printed.
\<close>

theorem run_continuous_connect_fails:
  assumes "fst (connect env (m, w)) = Inr False"
  shows "\<exists>m' w' e. run_continuous env fuel duration (m, w) = Some (Inr (), m', w')
           \<and> \<not> is_connected m'
           \<and> printed w' = printed w @ [MsgConnectFailed e]
           \<and> filter is_update (calls w') = filter is_update (calls w)
           \<and> filter is_sleep (calls w') = filter is_sleep (calls w)
           \<and> filter is_close (calls w') = filter is_close (calls w)"
proof -
  obtain m' w' where c: "connect env (m, w) = (Inr False, m', w')"
    using assms by (metis prod.collapse)
  then have run: "run_continuous env fuel duration (m, w) = Some (Inr (), m', w')"
    by (simp add: run_continuous_def)
  from connect_False [OF c] obtain e where
    nc: "\<not> is_connected m'" and pr: "printed w' = printed w @ [MsgConnectFailed e]" by blast
  from connect_appended [OF c]
  have ap: "appended (\<lambda>c. \<not> is_update c \<and> \<not> is_sleep c \<and> \<not> is_close c \<and> c \<noteq> CallTime) w w'"
    by simp
  have "filter is_update (calls w') = filter is_update (calls w)"
    "filter is_sleep (calls w') = filter is_sleep (calls w)"
    "filter is_close (calls w') = filter is_close (calls w)"
    using ap by (auto elim: appended_filter)
  with run nc pr show ?thesis by blast
qed

theorem run_continuous_connect_fails_witness:
  "fst (connect refuse_connect (fresh_manager, empty_world)) = Inr False
   \<and> (\<exists>m' w' e. run_continuous refuse_connect 0 None (fresh_manager, empty_world)
          = Some (Inr (), m', w')
        \<and> \<not> is_connected m'
        \<and> printed w' = printed empty_world @ [MsgConnectFailed e]
        \<and> filter is_update (calls w') = filter is_update (calls empty_world)
        \<and> filter is_sleep (calls w') = filter is_sleep (calls empty_world)
        \<and> filter is_close (calls w') = filter is_close (calls empty_world))"
proof -
  have h: "fst (connect refuse_connect (fresh_manager, empty_world)) = Inr False"
    by (simp add: model_defs refuse_connect_def Let_def)
  from run_continuous_connect_fails [OF h, of 0 None] h show ?thesis by blast
qed

text \<open>
  The claim as stated has the run end with failure. The result of a run whose connect is
  refused is the result of a run that connects, updates and ends when its duration has
  elapsed: both return \<^verbatim>\<open>None\<close>.
\<close>

theorem run_continuous_failure_not_reported_counterexample:
  "fst (connect refuse_connect (fresh_manager, empty_world)) = Inr False
   \<and> map_option fst (run_continuous refuse_connect 0 None (fresh_manager, empty_world))
       = Some (Inr ())
   \<and> fst (connect ticking (fresh_manager, empty_world)) = Inr True
   \<and> map_option fst (run_continuous ticking 2 (Some 3) (fresh_manager, empty_world))
       = Some (Inr ())"
  by (simp add: model_defs refuse_connect_def ticking_def eval_nat_numeral Let_def)

subsection \<open>C8: disconnect on every way out of the loop\<close>

text \<open>
  Claim C8: once \<^verbatim>\<open>connect\<close> has succeeded and the \<^verbatim>\<open>try\<close> is entered (the clock is
  read and the configuration, a dict, gives the interval), however \<^verbatim>\<open>run_continuous\<close>
  ends (the duration has elapsed, an interrupt, an error), \<^verbatim>\<open>disconnect\<close> has run
  exactly once: the external calls after those of \<^verbatim>\<open>connect\<close> end with one
  \<^verbatim>\<open>close\<close> of the connected handle, and no other \<^verbatim>\<open>close\<close> comes before it.
\<close>

theorem run_continuous_disconnects_once:
  assumes c: "connect env (m, w) = (Inr True, m1, w1)"
    and t: "env (length (calls w1)) = Returns start_time"
    and cfg: "config m = VDict kvs"
    and run: "run_continuous env fuel duration (m, w) = Some (r, m', w')"
  shows "\<exists>p xs. rpc m1 = Some p \<and> calls w' = calls w1 @ xs @ [CallClose p]
           \<and> filter is_close xs = []"
proof -
  let ?Q = "\<lambda>c. c = CallTime \<or> is_update c \<or> is_sleep c"
  let ?w2 = "w1\<lparr>calls := calls w1 @ [CallTime]\<rparr>"
  from connect_True [OF c] obtain p where
    ic: "is_connected m1" and rp: "rpc m1 = Some p" and cf: "config m1 = VDict kvs"
    using cfg by auto
  have tm: "ext_call env CallTime w1 = (Inr start_time, ?w2)"
    using t by (simp add: ext_call_eq)
  obtain ui where ui: "config_get_default (config m1) ''update_interval'' (VInt 15) = Inr ui"
    using cf by (simp add: config_get_default_def)
  from run c tm ui obtain m3 w3 where
    rt: "run_try env fuel start_time ui duration (m1, ?w2) = Some (m3, w3)"
    and dc: "disconnect env (m3, w3) = (r, m', w')"
    by (auto simp add: run_continuous_def split: option.splits)
  from run_try_props [OF rt] have m3: "m3 = m1" and ap: "appended ?Q ?w2 w3" by auto
  from ap obtain ys where ys: "calls w3 = calls ?w2 @ ys" "list_all ?Q ys"
    unfolding appended_iff by blast
  from disconnect_connected [OF ic rp dc [unfolded m3]]
  have cl: "calls w' = calls w3 @ [CallClose p]" by simp
  have "calls w' = calls w1 @ (CallTime # ys) @ [CallClose p]"
    using cl ys by simp
  moreover have "\<not> is_close c" if "c \<in> set ys" for c
    using ys(2) that by (intro loop_call_not_close) (auto simp add: list_all_iff)
  then have "filter is_close (CallTime # ys) = []"
    by (simp add: filter_empty_conv)
  ultimately show ?thesis using rp by blast
qed

theorem run_continuous_disconnects_once_witness:
  "connect ticking (fresh_manager, empty_world) =
     (Inr True, connected_manager,
      \<lparr>calls = [CallPresence (VStr ''123''), CallConnect (Presence (VStr ''123'') 0)],
       printed = [MsgConnected]\<rparr>)
   \<and> ticking 2 = Returns 2
   \<and> config fresh_manager = default_config
   \<and> run_continuous ticking 2 (Some 3) (fresh_manager, empty_world) =
       Some (Inr (), connected_manager\<lparr>is_connected := False\<rparr>,
         \<lparr>calls = [CallPresence (VStr ''123''), CallConnect (Presence (VStr ''123'') 0),
            CallTime, CallTime,
            CallUpdate (Presence (VStr ''123'') 0)
              [(''state'', VStr ''Playing a game''), (''details'', VStr ''Enjoying Discord''),
               (''large_image'', VStr ''discord''),
               (''large_text'', VStr ''Discord Rich Presence''), (''start'', VFloat 3)],
            CallTime, CallSleep (VInt 15), CallTime,
            CallUpdate (Presence (VStr ''123'') 0)
              [(''state'', VStr ''Playing a game''), (''details'', VStr ''Enjoying Discord''),
               (''large_image'', VStr ''discord''),
               (''large_text'', VStr ''Discord Rich Presence''), (''start'', VFloat 7)],
            CallTime, CallClose (Presence (VStr ''123'') 0)],
          printed = [MsgConnected, MsgBanner (VInt 15) (Some 3),
            MsgStatusUpdated (VStr ''Playing a game''),
            MsgStatusUpdated (VStr ''Playing a game''), MsgDisconnected]\<rparr>)
   \<and> (\<exists>xs. [CallPresence (VStr ''123''), CallConnect (Presence (VStr ''123'') 0),
            CallTime, CallTime,
            CallUpdate (Presence (VStr ''123'') 0)
              [(''state'', VStr ''Playing a game''), (''details'', VStr ''Enjoying Discord''),
               (''large_image'', VStr ''discord''),
               (''large_text'', VStr ''Discord Rich Presence''), (''start'', VFloat 3)],
            CallTime, CallSleep (VInt 15), CallTime,
            CallUpdate (Presence (VStr ''123'') 0)
              [(''state'', VStr ''Playing a game''), (''details'', VStr ''Enjoying Discord''),
               (''large_image'', VStr ''discord''),
               (''large_text'', VStr ''Discord Rich Presence''), (''start'', VFloat 7)],
            CallTime, CallClose (Presence (VStr ''123'') 0)]
          = [CallPresence (VStr ''123''), CallConnect (Presence (VStr ''123'') 0)] @ xs
              @ [CallClose (Presence (VStr ''123'') 0)]
        \<and> filter is_close xs = [])"
proof -
  let ?w1 = "\<lparr>calls = [CallPresence (VStr ''123''), CallConnect (Presence (VStr ''123'') 0)],
       printed = [MsgConnected]\<rparr>"
  let ?cs = "[CallPresence (VStr ''123''), CallConnect (Presence (VStr ''123'') 0),
            CallTime, CallTime,
            CallUpdate (Presence (VStr ''123'') 0)
              [(''state'', VStr ''Playing a game''), (''details'', VStr ''Enjoying Discord''),
               (''large_image'', VStr ''discord''),
               (''large_text'', VStr ''Discord Rich Presence''), (''start'', VFloat 3)],
            CallTime, CallSleep (VInt 15), CallTime,
            CallUpdate (Presence (VStr ''123'') 0)
              [(''state'', VStr ''Playing a game''), (''details'', VStr ''Enjoying Discord''),
               (''large_image'', VStr ''discord''),
               (''large_text'', VStr ''Discord Rich Presence''), (''start'', VFloat 7)],
            CallTime, CallClose (Presence (VStr ''123'') 0)]"
  let ?w' = "\<lparr>calls = ?cs,
          printed = [MsgConnected, MsgBanner (VInt 15) (Some 3),
            MsgStatusUpdated (VStr ''Playing a game''),
            MsgStatusUpdated (VStr ''Playing a game''), MsgDisconnected]\<rparr>"
  have h1: "connect ticking (fresh_manager, empty_world) = (Inr True, connected_manager, ?w1)"
    by (simp add: model_defs ticking_def Let_def)
  have h2: "ticking (length (calls ?w1)) = Returns 2"
    by (simp add: ticking_def)
  have h2': "ticking 2 = Returns 2"
    by (simp add: ticking_def)
  have h3: "config fresh_manager = default_config"
    by (simp add: fresh_manager_def)
  have h4: "run_continuous ticking 2 (Some 3) (fresh_manager, empty_world) =
       Some (Inr (), connected_manager\<lparr>is_connected := False\<rparr>, ?w')"
    by (simp add: model_defs ticking_def eval_nat_numeral Let_def)
  have rp: "rpc connected_manager = Some (Presence (VStr ''123'') 0)"
    by (simp add: connected_manager_def)
  from run_continuous_disconnects_once [of ticking fresh_manager empty_world connected_manager
      ?w1 2 _ 2 "Some 3" "Inr ()" "connected_manager\<lparr>is_connected := False\<rparr>" ?w',
      OF h1 h2 h3 [unfolded default_config_def] h4] rp
  have c: "\<exists>xs. ?cs = [CallPresence (VStr ''123''), CallConnect (Presence (VStr ''123'') 0)] @ xs
              @ [CallClose (Presence (VStr ''123'') 0)]
        \<and> filter is_close xs = []"
    by simp
  from h1 h2' h3 h4 c show ?thesis by blast
qed

subsection \<open>C9: the exit status\<close>




subsection \<open>C10: update_status leaves the manager alone, and the ticks go on\<close>

text \<open>
  Claim C10: every call of \<^verbatim>\<open>update_status\<close> leaves the manager as it was:
  \<^verbatim>\<open>client_id\<close>, \<^verbatim>\<open>config\<close>, \<^verbatim>\<open>rpc\<close> and \<^verbatim>\<open>is_connected\<close> (and
  \<^verbatim>\<open>config_file\<close>) are the same after the call, whether it returns \<^verbatim>\<open>True\<close> or
  \<^verbatim>\<open>False\<close> or raises. In particular a send that fails leaves the manager connected, so
  the later ticks of the loop keep attempting updates: on a connected manager whose
  configuration is a dict, when \<open>k\<close> ticks in a row pass the loop test, sleep and read
  the clock, each of them sends an update, whichever of the earlier sends returned or
  failed with an error; when the sleep of the next tick is interrupted, the loop ends
  with the manager unchanged, \<open>k\<close> updates sent and \<open>k + 1\<close> sleeps made.
\<close>

theorem update_status_frame_and_later_ticks:
  "fst (snd (update_status env a (m, w))) = m
   \<and> (is_connected m \<and> rpc m = Some p \<and> config m = VDict kvs
        \<and> (\<forall>i<k. tick_attempts env start_time duration
                     (length (calls w) + tick_calls duration * i))
        \<and> tick_interrupted env start_time duration (length (calls w) + tick_calls duration * k)
        \<and> k < n
      \<longrightarrow> (\<exists>w'. run_loop env n start_time update_interval duration (m, w)
                   = Some (Inl KeyboardInterrupt, m, w')
               \<and> length (filter is_update (calls w')) = length (filter is_update (calls w)) + k
               \<and> length (filter is_sleep (calls w'))
                   = length (filter is_sleep (calls w)) + k + 1))"
proof (intro conjI impI)
  show "fst (snd (update_status env a (m, w))) = m"
    by (metis update_status_keeps_manager prod.collapse)
next
  assume h: "is_connected m \<and> rpc m = Some p \<and> config m = VDict kvs
        \<and> (\<forall>i<k. tick_attempts env start_time duration
                     (length (calls w) + tick_calls duration * i))
        \<and> tick_interrupted env start_time duration (length (calls w) + tick_calls duration * k)
        \<and> k < n"
  then have c: "is_connected m" "rpc m = Some p" "config m = VDict kvs" by simp_all
  from h have t: "\<forall>i<k. tick_attempts env start_time duration
                     (length (calls w) + tick_calls duration * i)"
    and e: "tick_interrupted env start_time duration (length (calls w) + tick_calls duration * k)"
    and kn: "k < n" by simp_all
  from run_loop_ticks [OF c t e kn]
  show "\<exists>w'. run_loop env n start_time update_interval duration (m, w)
                   = Some (Inl KeyboardInterrupt, m, w')
               \<and> length (filter is_update (calls w')) = length (filter is_update (calls w)) + k
               \<and> length (filter is_sleep (calls w'))
                   = length (filter is_sleep (calls w)) + k + 1" .
qed

text \<open>
  The witness, once without a duration and once with a duration of 5 seconds: the send
  of the first tick fails with an error, the second tick sends again, and the sleep of
  the third tick is interrupted.
\<close>

theorem update_status_frame_and_later_ticks_witness:
  "is_connected connected_manager
   \<and> rpc connected_manager = Some (Presence (VStr ''123'') 0)
   \<and> config connected_manager = default_config
   \<and> first_send_fails 2 = Raises (Exception ''PipeClosed'')
   \<and> tick_attempts first_send_fails 0 None 0
   \<and> tick_attempts first_send_fails 0 None 3
   \<and> tick_interrupted first_send_fails 0 None 6
   \<and> (\<exists>w'. run_loop first_send_fails 3 0 (VInt 15) None (connected_manager, empty_world)
          = Some (Inl KeyboardInterrupt, connected_manager, w')
        \<and> length (filter is_update (calls w')) = 2
        \<and> length (filter is_sleep (calls w')) = 3)
   \<and> timed_send_fails 3 = Raises (Exception ''PipeClosed'')
   \<and> tick_attempts timed_send_fails 0 (Some 5) 0
   \<and> tick_attempts timed_send_fails 0 (Some 5) 4
   \<and> tick_interrupted timed_send_fails 0 (Some 5) 8
   \<and> (\<exists>w'. run_loop timed_send_fails 3 0 (VInt 15) (Some 5) (connected_manager, empty_world)
          = Some (Inl KeyboardInterrupt, connected_manager, w')
        \<and> length (filter is_update (calls w')) = 2
        \<and> length (filter is_sleep (calls w')) = 3)"
proof -
  have h1: "is_connected connected_manager"
    and h2: "rpc connected_manager = Some (Presence (VStr ''123'') 0)"
    and h3: "config connected_manager = default_config"
    by (simp_all add: connected_manager_def fresh_manager_def)
  have f2: "first_send_fails 2 = Raises (Exception ''PipeClosed'')"
    by (simp add: first_send_fails_def)
  have t0: "tick_attempts first_send_fails 0 None 0"
    and t3: "tick_attempts first_send_fails 0 None 3"
    and t6: "tick_interrupted first_send_fails 0 None 6"
    by (simp_all add: tick_attempts_def tick_interrupted_def test_passes_def
        duration_elapsed_def loop_test_reads_def first_send_fails_def quiet_def)
  have ta: "\<forall>i<2. tick_attempts first_send_fails 0 None
      (length (calls empty_world) + tick_calls None * i)"
  proof (intro allI impI)
    fix i :: nat assume "i < 2"
    then have "i = 0 \<or> i = 1" by arith
    then show "tick_attempts first_send_fails 0 None
        (length (calls empty_world) + tick_calls None * i)"
      using t0 t3 by (auto simp add: empty_world_def tick_calls_def loop_test_reads_def)
  qed
  have ti: "tick_interrupted first_send_fails 0 None
      (length (calls empty_world) + tick_calls None * 2)"
    using t6 by (simp add: empty_world_def tick_calls_def loop_test_reads_def)
  let ?kvs = "[(''state'', VStr ''Playing a game''),
      (''details'', VStr ''Enjoying Discord''),
      (''large_image'', VStr ''discord''),
      (''large_text'', VStr ''Discord Rich Presence''),
      (''small_image'', VNone),
      (''small_text'', VNone),
      (''update_interval'', VInt 15),
      (''auto_start'', VBool True)]"
  from update_status_frame_and_later_ticks [of first_send_fails no_args connected_manager
      empty_world "Presence (VStr ''123'') 0" ?kvs 2 0 None 3 "VInt 15"]
    h1 h2 h3 [unfolded default_config_def] ta ti
  have "\<exists>w'. run_loop first_send_fails 3 0 (VInt 15) None (connected_manager, empty_world)
          = Some (Inl KeyboardInterrupt, connected_manager, w')
        \<and> length (filter is_update (calls w')) = 2
        \<and> length (filter is_sleep (calls w')) = 3"
    by (simp add: empty_world_def eval_nat_numeral)
  note first = this
  have g3: "timed_send_fails 3 = Raises (Exception ''PipeClosed'')"
    by (simp add: timed_send_fails_def)
  have u0: "tick_attempts timed_send_fails 0 (Some 5) 0"
    and u4: "tick_attempts timed_send_fails 0 (Some 5) 4"
    and u8: "tick_interrupted timed_send_fails 0 (Some 5) 8"
    by (simp_all add: tick_attempts_def tick_interrupted_def test_passes_def
        duration_elapsed_def ext_call_def loop_test_reads_def timed_send_fails_def quiet_def)
  have ua: "\<forall>i<2. tick_attempts timed_send_fails 0 (Some 5)
      (length (calls empty_world) + tick_calls (Some 5) * i)"
  proof (intro allI impI)
    fix i :: nat assume "i < 2"
    then have "i = 0 \<or> i = 1" by arith
    then show "tick_attempts timed_send_fails 0 (Some 5)
        (length (calls empty_world) + tick_calls (Some 5) * i)"
      using u0 u4 by (auto simp add: empty_world_def tick_calls_def loop_test_reads_def)
  qed
  have ui: "tick_interrupted timed_send_fails 0 (Some 5)
      (length (calls empty_world) + tick_calls (Some 5) * 2)"
    using u8 by (simp add: empty_world_def tick_calls_def loop_test_reads_def)
  from update_status_frame_and_later_ticks [of timed_send_fails no_args connected_manager
      empty_world "Presence (VStr ''123'') 0" ?kvs 2 0 "Some 5" 3 "VInt 15"]
    h1 h2 h3 [unfolded default_config_def] ua ui
  have second: "\<exists>w'. run_loop timed_send_fails 3 0 (VInt 15) (Some 5)
            (connected_manager, empty_world)
          = Some (Inl KeyboardInterrupt, connected_manager, w')
        \<and> length (filter is_update (calls w')) = 2
        \<and> length (filter is_sleep (calls w')) = 3"
    by (simp add: empty_world_def eval_nat_numeral)
  from h1 h2 h3 f2 t0 t3 t6 first g3 u0 u4 u8 second show ?thesis by blast
qed

section \<open>Further properties\<close>

subsection \<open>The loop never breaks without a truthy duration\<close>

text \<open>
  For a duration of \<^verbatim>\<open>None\<close> and for a duration of 0 alike, the loop of
  \<^verbatim>\<open>run_continuous\<close> never ends at its \<^verbatim>\<open>break\<close>: whatever the environment and
  the number of iterations, it is either still running or has ended by an exception.
\<close>

theorem run_loop_no_break:
  "run_loop env n start_time update_interval None s \<noteq> Some (Inr (), s')
   \<and> run_loop env n start_time update_interval (Some 0) s \<noteq> Some (Inr (), s')"
proof (induction n arbitrary: s)
  case 0
  show ?case by simp
next
  case (Suc n)
  obtain m w where s: "s = (m, w)" by fastforce
  obtain r2 w2 where sl: "ext_call env (CallSleep update_interval) w = (r2, w2)"
    by fastforce
  obtain r3 s3 where us: "update_status env no_args (m, w2) = (r3, s3)"
    by (cases "update_status env no_args (m, w2)") blast
  show ?case
  proof (cases r2)
    case (Inl e)
    with s sl show ?thesis by (simp add: duration_elapsed_def)
  next
    case r2: (Inr t)
    show ?thesis
    proof (cases r3)
      case (Inl e)
      with s sl r2 us show ?thesis by (simp add: duration_elapsed_def)
    next
      case (Inr b)
      with s sl r2 us Suc.IH [of s3] show ?thesis by (simp add: duration_elapsed_def)
    qed
  qed
qed

subsection \<open>disconnect when close returns, and when already disconnected\<close>

text \<open>
  On a connected manager whose \<^verbatim>\<open>close\<close> returns, \<^verbatim>\<open>disconnect\<close> makes that one
  external call, clears \<^verbatim>\<open>is_connected\<close> and prints its line.
\<close>

theorem disconnect_close_returns:
  "is_connected m \<Longrightarrow> rpc m = Some p \<Longrightarrow> env (length (calls w)) = Returns t \<Longrightarrow>
     disconnect env (m, w) =
       (Inr (), m\<lparr>is_connected := False\<rparr>,
        w\<lparr>calls := calls w @ [CallClose p], printed := printed w @ [MsgDisconnected]\<rparr>)"
  by (simp add: disconnect_def ext_call_def say_def)

theorem disconnect_close_returns_witness:
  "is_connected connected_manager
   \<and> rpc connected_manager = Some (Presence (VStr ''123'') 0)
   \<and> quiet (length (calls empty_world)) = Returns 0
   \<and> disconnect quiet (connected_manager, empty_world) =
       (Inr (), connected_manager\<lparr>is_connected := False\<rparr>,
        \<lparr>calls = [CallClose (Presence (VStr ''123'') 0)], printed = [MsgDisconnected]\<rparr>)"
proof -
  have h1: "is_connected connected_manager"
    and h2: "rpc connected_manager = Some (Presence (VStr ''123'') 0)"
    and h3: "quiet (length (calls empty_world)) = Returns 0"
    by (simp_all add: connected_manager_def quiet_def)
  from h1 h2 h3
    disconnect_close_returns [of connected_manager "Presence (VStr ''123'') 0" quiet
      empty_world 0]
  show ?thesis by (simp add: empty_world_def)
qed

text \<open>
  On a manager whose \<^verbatim>\<open>is_connected\<close> is false, \<^verbatim>\<open>disconnect\<close> does nothing: no
  external call, no printed line, no change of the manager, no error.
\<close>

theorem disconnect_when_disconnected:
  "\<not> is_connected m \<Longrightarrow> disconnect env (m, w) = (Inr (), m, w)"
  by (simp add: disconnect_def split: option.splits)

theorem disconnect_when_disconnected_witness:
  "\<not> is_connected fresh_manager
   \<and> disconnect quiet (fresh_manager, empty_world) = (Inr (), fresh_manager, empty_world)"
  using disconnect_when_disconnected [of fresh_manager quiet empty_world]
  by (simp add: fresh_manager_def)

subsection \<open>A configuration that is not a dict\<close>

text \<open>
  \<^verbatim>\<open>json.load\<close> may return a value that is not a dict, a list for instance. Then, after
  a successful connect, \<^verbatim>\<open>self.config.get("update_interval", 15)\<close> raises
  \<^verbatim>\<open>AttributeError\<close> before the \<^verbatim>\<open>try\<close> is entered: \<^verbatim>\<open>run_continuous\<close> ends with
  that error, has sent no update and has not closed the connection.
\<close>

theorem run_continuous_config_not_dict:
  "run_continuous quiet n duration (fresh_manager\<lparr>config := VList []\<rparr>, empty_world) =
     Some (Inl (Exception ''AttributeError''),
       connected_manager\<lparr>config := VList []\<rparr>,
       \<lparr>calls = [CallPresence (VStr ''123''), CallConnect (Presence (VStr ''123'') 0), CallTime],
        printed = [MsgConnected]\<rparr>)"
  by (simp add: run_continuous_def connect_def ext_call_def say_def config_get_default_def
      fresh_manager_def connected_manager_def empty_world_def quiet_def Let_def)

end
